theory Spec2Isabelle
  imports Complex_Main "HOL-Library.Multiset"
begin

section \<open>Eco-Pack core logic: box sizing, baseline estimator, material recommender\<close>

text \<open>
  A shallow embedding of \<^verbatim>\<open>src/core_logic.py\<close>.

  \<^item> The two pandas frames \<^verbatim>\<open>PRODUCTS_DF\<close> and \<^verbatim>\<open>MATERIALS_DF\<close> are read from CSV files
    that are not part of the sources, so every function takes the frame it reads as an
    argument: a list of rows in file order.
  \<^item> Numeric columns and arguments are Python/numpy numbers; they are modelled as
    \<^typ>\<open>real\<close>, so rounding, infinities and NaN are outside the model.
  \<^item> \<^verbatim>\<open>.iloc[0]\<close> on a frame without rows raises \<^verbatim>\<open>IndexError\<close>; that is a value of
    the error type below.
  \<^item> Identifiers are strings. The column \<^verbatim>\<open>name\<close> of the material table is the field
    \<open>material_name\<close>, the product table having a column of the same name.
\<close>

subsection \<open>Data model\<close>

datatype py_error = IndexError

record product =
  product_id :: string
  name :: string
  length_cm :: real
  width_cm :: real
  height_cm :: real
  weight_kg :: real
  fragility_score :: real
  current_packaging_material :: string

record material =
  material_id :: string
  material_name :: string
  strength_rating :: real
  recycled_content_percent :: real
  recyclability_score :: real
  biodegradability_score :: real
  carbon_footprint_per_unit_sqm :: real
  cost_per_unit_area :: real

text \<open>The dictionary returned by the two baseline functions (key \<^verbatim>\<open>length\<close> is
  \<open>length_pkg\<close> here, the plain name being the list function of HOL).\<close>

record packaging =
  length_pkg :: real
  width :: real
  height :: real
  volume :: real
  material :: material

text \<open>\<^verbatim>\<open>frame.iloc[0]\<close>: the first row, or \<^verbatim>\<open>IndexError\<close>.\<close>

fun iloc0 :: "'a list \<Rightarrow> py_error + 'a" where
  "iloc0 [] = Inl IndexError"
| "iloc0 (x # xs) = Inr x"

text \<open>\<^verbatim>\<open>Series.max()\<close> and \<^verbatim>\<open>Series.min()\<close>: a left-to-right reduction of the column.
  On a column without entries pandas yields NaN, which is no real number: the functions
  have no equation for it, and the program reduces a column only after the emptiness
  test of its frame.\<close>

fun series_max :: "real list \<Rightarrow> real" where
  "series_max (x # xs) = fold max xs x"

fun series_min :: "real list \<Rightarrow> real" where
  "series_min (x # xs) = fold min xs x"

subsection \<open>Box sizing\<close>

text \<open>\<^verbatim>\<open>get_product_data\<close>: the first row with the given id.\<close>

definition get_product_data :: "product list \<Rightarrow> string \<Rightarrow> py_error + product" where
  "get_product_data PRODUCTS_DF pid = iloc0 (filter (\<lambda>p. product_id p = pid) PRODUCTS_DF)"

definition calculate_optimal_single_box ::
  "real \<Rightarrow> real \<Rightarrow> real \<Rightarrow> real \<Rightarrow> real \<times> real \<times> real \<times> real" where
  "calculate_optimal_single_box length_arg width_arg height_arg buffer_cm =
     (let optimal_length = length_arg + buffer_cm;
          optimal_width = width_arg + buffer_cm;
          optimal_height = height_arg + buffer_cm;
          optimal_volume = optimal_length * optimal_width * optimal_height
      in (optimal_length, optimal_width, optimal_height, optimal_volume))"

text \<open>The rows that \<^verbatim>\<open>PRODUCTS_DF[PRODUCTS_DF['product_id'].isin(product_ids)]\<close> keeps:
  table order, one row per table row whose id occurs among the arguments.\<close>

definition selected_products :: "product list \<Rightarrow> string list \<Rightarrow> product list" where
  "selected_products PRODUCTS_DF product_ids =
     filter (\<lambda>p. product_id p \<in> set product_ids) PRODUCTS_DF"

definition calculate_approximate_multi_box ::
  "product list \<Rightarrow> string list \<Rightarrow> real \<times> real \<times> real \<times> real" where
  "calculate_approximate_multi_box PRODUCTS_DF product_ids =
     (let selected = selected_products PRODUCTS_DF product_ids
      in if selected = [] then (0, 0, 0, 0)
         else
          (let max_l = series_max (map length_cm selected);
               max_w = series_max (map width_cm selected);
               sum_h = sum_list (map height_cm selected);
               buffer_cm_multi = 2;
               optimal_length = max_l + buffer_cm_multi;
               optimal_width = max_w + buffer_cm_multi;
               optimal_height = sum_h + buffer_cm_multi;
               optimal_volume = optimal_length * optimal_width * optimal_height
           in (optimal_length, optimal_width, optimal_height, optimal_volume)))"

subsection \<open>Baseline estimator\<close>

text \<open>\<^verbatim>\<open>MATERIALS_DF[MATERIALS_DF['material_id'] == mid].iloc[0]\<close>.\<close>

definition lookup_material :: "material list \<Rightarrow> string \<Rightarrow> py_error + material" where
  "lookup_material MATERIALS_DF mid = iloc0 (filter (\<lambda>m. material_id m = mid) MATERIALS_DF)"

definition get_mock_current_packaging ::
  "product list \<Rightarrow> material list \<Rightarrow> string \<Rightarrow> py_error + packaging" where
  "get_mock_current_packaging PRODUCTS_DF MATERIALS_DF pid =
     (case get_product_data PRODUCTS_DF pid of
        Inl e \<Rightarrow> Inl e
      | Inr product \<Rightarrow>
          (let current_l = length_cm product * 1.2;
               current_w = width_cm product * 1.2;
               current_h = height_cm product * 1.2;
               current_vol = current_l * current_w * current_h;
               current_material_id = current_packaging_material product
           in case lookup_material MATERIALS_DF current_material_id of
                Inl e \<Rightarrow> Inl e
              | Inr current_material \<Rightarrow>
                  Inr \<lparr>length_pkg = current_l, width = current_w, height = current_h,
                       volume = current_vol, material = current_material\<rparr>))"

definition get_mock_current_multi_packaging ::
  "product list \<Rightarrow> material list \<Rightarrow> string list \<Rightarrow> py_error + packaging" where
  "get_mock_current_multi_packaging PRODUCTS_DF MATERIALS_DF product_ids =
     (let selected = selected_products PRODUCTS_DF product_ids
      in if selected = [] then
           (case lookup_material MATERIALS_DF ''cardboard_standard'' of
              Inl e \<Rightarrow> Inl e
            | Inr current_material \<Rightarrow>
                Inr \<lparr>length_pkg = 0, width = 0, height = 0, volume = 0,
                     material = current_material\<rparr>)
         else
          (let max_l = series_max (map length_cm selected);
               max_w = series_max (map width_cm selected);
               sum_h = sum_list (map height_cm selected);
               current_l = max_l * 1.5;
               current_w = max_w * 1.5;
               current_h = sum_h * 1.5;
               current_vol = current_l * current_w * current_h
           in case lookup_material MATERIALS_DF ''cardboard_standard'' of
                Inl e \<Rightarrow> Inl e
              | Inr current_material \<Rightarrow>
                  Inr \<lparr>length_pkg = current_l, width = current_w, height = current_h,
                       volume = current_vol, material = current_material\<rparr>))"

subsection \<open>Material recommender\<close>

text \<open>A row of the frame after the column \<^verbatim>\<open>sustainability_score\<close> has been added.\<close>

record scored_material = material +
  sustainability_score :: real

definition assign_score :: "material \<Rightarrow> real \<Rightarrow> scored_material" where
  "assign_score m s = material.extend m (scored_material.fields s)"

text \<open>Line 55: the rows with \<^verbatim>\<open>strength_rating >= product_fragility\<close>, in table order.\<close>

definition suitable_materials :: "material list \<Rightarrow> real \<Rightarrow> material list" where
  "suitable_materials MATERIALS_DF product_fragility =
     filter (\<lambda>m. strength_rating m \<ge> product_fragility) MATERIALS_DF"

text \<open>Lines 63 to 68, for one row; \<open>max_cf\<close> is the value of
  \<^verbatim>\<open>MATERIALS_DF['carbon_footprint_per_unit_sqm'].max()\<close>.\<close>

definition score_row :: "real \<Rightarrow> material \<Rightarrow> real" where
  "score_row max_cf m =
     recycled_content_percent m * 0.005 +
     recyclability_score m * 0.1 +
     biodegradability_score m * 0.05 +
     (1 - carbon_footprint_per_unit_sqm m / max_cf) * 0.2"

definition scored_materials :: "material list \<Rightarrow> real \<Rightarrow> scored_material list" where
  "scored_materials MATERIALS_DF product_fragility =
     (let max_cf = series_max (map carbon_footprint_per_unit_sqm MATERIALS_DF)
      in map (\<lambda>m. assign_score m (score_row max_cf m))
           (suitable_materials MATERIALS_DF product_fragility))"

text \<open>Line 70 calls \<^verbatim>\<open>sort_values(by='sustainability_score', ascending=False)\<close> of pandas
  with the default sorting kind. The library is not part of the sources, so the sort is
  an argument \<open>sort_values\<close> of the model. What the program relies on is that the result
  holds the same rows, in descending order of the score; how rows of equal score are
  ordered is left to the library.\<close>

definition sort_values_contract :: "(scored_material list \<Rightarrow> scored_material list) \<Rightarrow> bool" where
  "sort_values_contract sort_values \<longleftrightarrow>
     (\<forall>xs. mset (sort_values xs) = mset xs \<and>
           sorted_wrt (\<lambda>a b. sustainability_score a \<ge> sustainability_score b) (sort_values xs))"

text \<open>One function that meets the contract, used to run the model on concrete tables.\<close>

definition insertion_sort_values :: "scored_material list \<Rightarrow> scored_material list" where
  "insertion_sort_values xs = sort_key (\<lambda>r. - sustainability_score r) xs"

text \<open>Another one: an ascending insertion sort, reversed. It meets the contract as well and
  orders rows of equal score the other way round.\<close>

definition reversing_sort_values :: "scored_material list \<Rightarrow> scored_material list" where
  "reversing_sort_values xs = rev (sort_key sustainability_score xs)"

text \<open>Lines 70 to 78: the sorted frame, the cost floor and the affordable rows.\<close>

definition sorted_materials ::
  "(scored_material list \<Rightarrow> scored_material list) \<Rightarrow> material list \<Rightarrow> real \<Rightarrow> scored_material list" where
  "sorted_materials sort_values MATERIALS_DF product_fragility =
     sort_values (scored_materials MATERIALS_DF product_fragility)"

definition lowest_cost_material_cost ::
  "(scored_material list \<Rightarrow> scored_material list) \<Rightarrow> material list \<Rightarrow> real \<Rightarrow> real" where
  "lowest_cost_material_cost sort_values MATERIALS_DF product_fragility =
     series_min (map cost_per_unit_area (sorted_materials sort_values MATERIALS_DF product_fragility))"

definition affordable_sustainable_materials ::
  "(scored_material list \<Rightarrow> scored_material list) \<Rightarrow> material list \<Rightarrow> real \<Rightarrow> real
     \<Rightarrow> scored_material list" where
  "affordable_sustainable_materials sort_values MATERIALS_DF product_fragility cost_tolerance_factor =
     filter (\<lambda>r. cost_per_unit_area r \<le>
                  lowest_cost_material_cost sort_values MATERIALS_DF product_fragility
                    * cost_tolerance_factor)
       (sorted_materials sort_values MATERIALS_DF product_fragility)"

text \<open>The result is \<open>Inr None\<close> for Python's \<^verbatim>\<open>None\<close>, \<open>Inr (Some r)\<close> for a returned row.\<close>

definition recommend_sustainable_material ::
  "(scored_material list \<Rightarrow> scored_material list) \<Rightarrow> material list \<Rightarrow> real \<Rightarrow> real
     \<Rightarrow> py_error + scored_material option" where
  "recommend_sustainable_material sort_values MATERIALS_DF product_fragility cost_tolerance_factor =
     (if suitable_materials MATERIALS_DF product_fragility = [] then Inr None
      else
        (let affordable = affordable_sustainable_materials sort_values MATERIALS_DF
                            product_fragility cost_tolerance_factor
         in if affordable = [] then
              map_sum id Some (iloc0 (sorted_materials sort_values MATERIALS_DF product_fragility))
            else map_sum id Some (iloc0 affordable)))"

subsection \<open>Reference notions for the properties\<close>

text \<open>The denominator of line 67 is not zero. With a zero denominator numpy yields NaN or
  an infinity for every score, which the real numbers of this model do not have, so the
  properties that speak about scores are stated for tables with this property.\<close>

definition finite_scores :: "material list \<Rightarrow> bool" where
  "finite_scores MATERIALS_DF \<longleftrightarrow>
     series_max (map carbon_footprint_per_unit_sqm MATERIALS_DF) \<noteq> 0"

text \<open>The composite score in the words of the specification: the weighted sum, with the
  carbon footprint normalised by the maximum over the entire material table.\<close>

definition composite_score_spec :: "material list \<Rightarrow> material \<Rightarrow> real" where
  "composite_score_spec tbl m =
     recycled_content_percent m * 0.005 + recyclability_score m * 0.1 +
     biodegradability_score m * 0.05 +
     (1 - carbon_footprint_per_unit_sqm m / Max (carbon_footprint_per_unit_sqm ` set tbl)) * 0.2"

text \<open>The affordable set in the words of the specification: the suitable materials whose
  cost is at most the minimum cost among the suitable materials times the tolerance.\<close>

definition affordable_spec :: "material list \<Rightarrow> real \<Rightarrow> real \<Rightarrow> scored_material set" where
  "affordable_spec tbl f tol =
     {r \<in> set (scored_materials tbl f).
        cost_per_unit_area r \<le> Min (cost_per_unit_area ` set (scored_materials tbl f)) * tol}"

subsection \<open>Example tables\<close>

text \<open>A material table of three rows. The largest carbon footprint belongs to a row that
  is too weak for fragility 3, and of the two rows that are strong enough the dearer one
  (1.25 times the cheaper) has the higher score.\<close>

definition cardboard_standard :: material where
  "cardboard_standard =
     \<lparr>material_id = ''cardboard_standard'', material_name = ''Standard Cardboard'',
      strength_rating = 3, recycled_content_percent = 30, recyclability_score = 4,
      biodegradability_score = 4, carbon_footprint_per_unit_sqm = 0.5,
      cost_per_unit_area = 1\<rparr>"

definition cardboard_recycled :: material where
  "cardboard_recycled =
     \<lparr>material_id = ''cardboard_recycled'', material_name = ''Recycled Cardboard'',
      strength_rating = 4, recycled_content_percent = 90, recyclability_score = 5,
      biodegradability_score = 5, carbon_footprint_per_unit_sqm = 0.25,
      cost_per_unit_area = 1.25\<rparr>"

definition bubble_wrap :: material where
  "bubble_wrap =
     \<lparr>material_id = ''bubble_wrap'', material_name = ''Bubble Wrap'',
      strength_rating = 2, recycled_content_percent = 0, recyclability_score = 1,
      biodegradability_score = 1, carbon_footprint_per_unit_sqm = 1,
      cost_per_unit_area = 0.5\<rparr>"

definition demo_materials :: "material list" where
  "demo_materials = [cardboard_standard, cardboard_recycled, bubble_wrap]"

text \<open>A material table that has no row \<open>cardboard_standard\<close>.\<close>

definition materials_without_default :: "material list" where
  "materials_without_default = [cardboard_recycled, bubble_wrap]"

text \<open>A table of two rows that differ in the identifier only.\<close>

definition cardboard_plain :: material where
  "cardboard_plain = cardboard_standard\<lparr>material_id := ''cardboard_plain''\<rparr>"

definition tie_materials :: "material list" where
  "tie_materials = [cardboard_standard, cardboard_plain]"

definition mug :: product where
  "mug = \<lparr>product_id = ''P1'', name = ''Mug'', length_cm = 10, width_cm = 10, height_cm = 10,
          weight_kg = 0.4, fragility_score = 3,
          current_packaging_material = ''cardboard_standard''\<rparr>"

definition poster :: product where
  "poster = \<lparr>product_id = ''P2'', name = ''Poster'', length_cm = 20, width_cm = 5,
             height_cm = 3, weight_kg = 0.1, fragility_score = 1,
             current_packaging_material = ''bubble_wrap''\<rparr>"

definition demo_products :: "product list" where
  "demo_products = [mug, poster]"

lemmas demo_defs = demo_materials_def cardboard_standard_def cardboard_recycled_def
  bubble_wrap_def demo_products_def mug_def poster_def

lemmas recommender_defs = recommend_sustainable_material_def
  affordable_sustainable_materials_def lowest_cost_material_cost_def sorted_materials_def
  scored_materials_def suitable_materials_def score_row_def insertion_sort_values_def Let_def

subsection \<open>Facts about the column reductions and the first row\<close>

lemma series_max_Max: "xs \<noteq> [] \<Longrightarrow> series_max xs = Max (set xs)"
  by (cases xs) (simp_all add: Max.set_eq_fold [symmetric])

lemma series_min_Min: "xs \<noteq> [] \<Longrightarrow> series_min xs = Min (set xs)"
  by (cases xs) (simp_all add: Min.set_eq_fold [symmetric])

lemma iloc0_Some: "xs \<noteq> [] \<Longrightarrow> iloc0 xs = Inr (hd xs)"
  by (cases xs) simp_all

subsection \<open>Lookups by identifier\<close>

text \<open>A lookup returns the first row of the table that carries the identifier asked for,
  and raises \<^verbatim>\<open>IndexError\<close> exactly when no row carries it.\<close>

lemma iloc0_filter_find:
  "iloc0 (filter Q xs) = (case find Q xs of None \<Rightarrow> Inl IndexError | Some x \<Rightarrow> Inr x)"
  by (induction xs) simp_all

lemma get_product_data_find:
  "get_product_data P pid =
     (case find (\<lambda>q. product_id q = pid) P of None \<Rightarrow> Inl IndexError | Some p \<Rightarrow> Inr p)"
  by (simp add: get_product_data_def iloc0_filter_find)

lemma lookup_material_find:
  "lookup_material M mid =
     (case find (\<lambda>x. material_id x = mid) M of None \<Rightarrow> Inl IndexError | Some m \<Rightarrow> Inr m)"
  by (simp add: lookup_material_def iloc0_filter_find)

lemma lookup_material_pins_id:
  "lookup_material M mid = Inr m \<Longrightarrow> m \<in> set M \<and> material_id m = mid"
  by (auto simp: lookup_material_find find_Some_iff split: option.splits)

lemma lookup_material_fails_iff:
  "lookup_material M mid = Inl IndexError \<longleftrightarrow> mid \<notin> material_id ` set M"
  by (induction M) (auto simp: lookup_material_def)

lemma get_product_data_pins_id:
  "get_product_data P pid = Inr p \<Longrightarrow> p \<in> set P \<and> product_id p = pid"
  by (auto simp: get_product_data_find find_Some_iff split: option.splits)

lemma get_product_data_fails_iff:
  "get_product_data P pid = Inl IndexError \<longleftrightarrow> pid \<notin> product_id ` set P"
  by (induction P) (auto simp: get_product_data_def)

lemma selected_products_rows:
  "p \<in> set (selected_products P ids) \<longleftrightarrow> p \<in> set P \<and> product_id p \<in> set ids"
  by (simp add: selected_products_def)

subsection \<open>Rows with a score\<close>

lemma score_assign [simp]: "sustainability_score (assign_score m s) = s"
  by (simp add: assign_score_def material.defs scored_material.defs)

lemma truncate_assign [simp]: "material.truncate (assign_score m s) = m"
  by (simp add: assign_score_def material.defs scored_material.defs)

lemma cost_assign [simp]: "cost_per_unit_area (assign_score m s) = cost_per_unit_area m"
  by (cases m) (simp add: assign_score_def material.defs)

lemma strength_assign [simp]: "strength_rating (assign_score m s) = strength_rating m"
  by (cases m) (simp add: assign_score_def material.defs)

lemma id_assign [simp]: "material_id (assign_score m s) = material_id m"
  by (cases m) (simp add: assign_score_def material.defs)

lemma scored_Nil [simp]: "scored_materials tbl f = [] \<longleftrightarrow> suitable_materials tbl f = []"
  by (simp add: scored_materials_def Let_def)

lemma suitable_Nil:
  "suitable_materials tbl f = [] \<longleftrightarrow> \<not> (\<exists>m\<in>set tbl. f \<le> strength_rating m)"
  by (auto simp: suitable_materials_def filter_empty_conv)

lemma scored_row:
  assumes "r \<in> set (scored_materials tbl f)"
  shows "material.truncate r \<in> set tbl \<and> f \<le> strength_rating r \<and>
         sustainability_score r =
           score_row (series_max (map carbon_footprint_per_unit_sqm tbl)) (material.truncate r)"
  using assms by (auto simp: scored_materials_def Let_def suitable_materials_def)


subsection \<open>The sort\<close>

lemma insertion_sort_values_contract: "sort_values_contract insertion_sort_values"
proof -
  have "sorted_wrt (\<lambda>a b. sustainability_score a \<ge> sustainability_score b)
          (insertion_sort_values xs)" for xs
  proof -
    have "sorted (map (\<lambda>r. - sustainability_score r) (insertion_sort_values xs))"
      unfolding insertion_sort_values_def by (rule sorted_sort_key)
    then show ?thesis by (simp add: sorted_map)
  qed
  then show ?thesis
    by (simp add: sort_values_contract_def insertion_sort_values_def)
qed

lemma reversing_sort_values_contract: "sort_values_contract reversing_sort_values"
proof -
  have "sorted_wrt (\<lambda>a b. sustainability_score a \<ge> sustainability_score b)
          (reversing_sort_values xs)" for xs
  proof -
    have "sorted (map sustainability_score (sort_key sustainability_score xs))"
      by (rule sorted_sort_key)
    then have "sorted_wrt (\<lambda>a b. sustainability_score a \<le> sustainability_score b)
                 (sort_key sustainability_score xs)"
      by (simp add: sorted_map)
    then show ?thesis
      unfolding reversing_sort_values_def by (simp add: sorted_wrt_rev)
  qed
  then show ?thesis
    by (simp add: sort_values_contract_def reversing_sort_values_def)
qed

text \<open>The contract leaves the order of rows of equal score open: the two functions above
  both meet it and order the two rows of \<open>tie_materials\<close> differently. Whether rows of equal
  score keep their table order is decided by the sorting algorithm of the library alone.\<close>

lemma tie_order_open:
  "sort_values_contract insertion_sort_values \<and> sort_values_contract reversing_sort_values \<and>
   sorted_materials insertion_sort_values tie_materials 3 =
     [assign_score cardboard_standard 0.75, assign_score cardboard_plain 0.75] \<and>
   sorted_materials reversing_sort_values tie_materials 3 =
     [assign_score cardboard_plain 0.75, assign_score cardboard_standard 0.75]"
  using insertion_sort_values_contract reversing_sort_values_contract
  by (simp add: recommender_defs reversing_sort_values_def tie_materials_def cardboard_plain_def
        cardboard_standard_def)

lemma contract_set: "sort_values_contract srt \<Longrightarrow> set (srt xs) = set xs"
  unfolding sort_values_contract_def by (metis set_mset_mset)

lemma contract_Nil: "sort_values_contract srt \<Longrightarrow> srt xs = [] \<longleftrightarrow> xs = []"
  unfolding sort_values_contract_def by (metis mset_zero_iff)

lemma contract_sorted:
  "sort_values_contract srt \<Longrightarrow>
   sorted_wrt (\<lambda>a b. sustainability_score a \<ge> sustainability_score b) (srt xs)"
  unfolding sort_values_contract_def by blast

lemma sorted_Nil:
  "sort_values_contract srt \<Longrightarrow>
   sorted_materials srt tbl f = [] \<longleftrightarrow> suitable_materials tbl f = []"
  by (simp add: sorted_materials_def contract_Nil)

lemma set_sorted:
  "sort_values_contract srt \<Longrightarrow>
   set (sorted_materials srt tbl f) = set (scored_materials tbl f)"
  by (simp add: sorted_materials_def contract_set)

text \<open>The first row that passes a filter on a frame in descending order of the score is
  a row of the frame, passes the filter, and no row that passes has a higher score.\<close>

lemma head_of_filtered_sorted:
  assumes "sorted_wrt (\<lambda>a b. sustainability_score a \<ge> (sustainability_score b :: real)) xs"
    and "filter P xs \<noteq> []"
  shows "hd (filter P xs) \<in> set xs \<and> P (hd (filter P xs)) \<and>
         (\<forall>a\<in>set xs. P a \<longrightarrow> sustainability_score a \<le> sustainability_score (hd (filter P xs)))"
proof -
  obtain y ys where e: "filter P xs = y # ys" using assms(2) by (cases "filter P xs") auto
  have "sorted_wrt (\<lambda>a b. sustainability_score a \<ge> sustainability_score b) (filter P xs)"
    using assms(1) by (rule sorted_wrt_filter)
  then have le: "\<forall>a\<in>set ys. sustainability_score a \<le> sustainability_score y"
    by (simp add: e)
  have mem: "\<And>a. a \<in> set xs \<and> P a \<longleftrightarrow> a = y \<or> a \<in> set ys"
    using arg_cong [OF e, of set] by auto
  have "y \<in> set xs" "P y" using mem [of y] by simp_all
  moreover have "\<forall>a\<in>set xs. P a \<longrightarrow> sustainability_score a \<le> sustainability_score y"
  proof (intro ballI impI)
    fix a assume "a \<in> set xs" "P a"
    then have "a = y \<or> a \<in> set ys" using mem by blast
    then show "sustainability_score a \<le> sustainability_score y" using le by auto
  qed
  ultimately show ?thesis by (simp add: e)
qed

subsection \<open>The branches of the recommender\<close>

lemma recommend_cases:
  assumes c: "sort_values_contract srt" and s: "suitable_materials tbl f \<noteq> []"
  shows "recommend_sustainable_material srt tbl f tol =
     Inr (Some (if affordable_sustainable_materials srt tbl f tol = []
                then hd (sorted_materials srt tbl f)
                else hd (affordable_sustainable_materials srt tbl f tol)))"
  using s sorted_Nil [OF c, of tbl f]
  by (simp add: recommend_sustainable_material_def Let_def iloc0_Some)

lemma recommend_member:
  assumes c: "sort_values_contract srt"
    and r: "recommend_sustainable_material srt tbl f tol = Inr (Some r)"
  shows "r \<in> set (scored_materials tbl f)"
proof -
  have s: "suitable_materials tbl f \<noteq> []"
    using r by (auto simp: recommend_sustainable_material_def)
  let ?A = "affordable_sustainable_materials srt tbl f tol"
  let ?S = "sorted_materials srt tbl f"
  have S: "?S \<noteq> []" using s sorted_Nil [OF c] by simp
  have eq: "r = (if ?A = [] then hd ?S else hd ?A)"
    using r recommend_cases [OF c s, of tol] by simp
  have "set ?A \<subseteq> set ?S" by (auto simp: affordable_sustainable_materials_def)
  then have "r \<in> set ?S" using eq S by (cases "?A = []") (auto simp del: set_empty)
  then show ?thesis using set_sorted [OF c] by simp
qed

lemma lowest_cost_spec:
  assumes c: "sort_values_contract srt" and s: "suitable_materials tbl f \<noteq> []"
  shows "lowest_cost_material_cost srt tbl f =
         Min (cost_per_unit_area ` set (scored_materials tbl f))"
  using sorted_Nil [OF c, of tbl f] s
  by (simp add: lowest_cost_material_cost_def series_min_Min set_sorted [OF c])

lemma set_affordable:
  assumes c: "sort_values_contract srt" and s: "suitable_materials tbl f \<noteq> []"
  shows "set (affordable_sustainable_materials srt tbl f tol) = affordable_spec tbl f tol"
  by (auto simp: affordable_sustainable_materials_def affordable_spec_def
        lowest_cost_spec [OF c s] set_sorted [OF c])

lemma recommend_affordable:
  assumes c: "sort_values_contract srt" and s: "suitable_materials tbl f \<noteq> []"
    and a: "affordable_spec tbl f tol \<noteq> {}"
  shows "\<exists>r. recommend_sustainable_material srt tbl f tol = Inr (Some r) \<and>
             r \<in> affordable_spec tbl f tol \<and>
             (\<forall>a\<in>affordable_spec tbl f tol. sustainability_score a \<le> sustainability_score r)"
proof -
  let ?A = "affordable_sustainable_materials srt tbl f tol"
  let ?P = "\<lambda>r. cost_per_unit_area r \<le> lowest_cost_material_cost srt tbl f * tol"
  have A: "?A \<noteq> []" using a set_affordable [OF c s, of tol] by auto
  have Adef: "?A = filter ?P (sorted_materials srt tbl f)"
    by (simp add: affordable_sustainable_materials_def)
  have srtd: "sorted_wrt (\<lambda>a b. sustainability_score a \<ge> sustainability_score b)
                (sorted_materials srt tbl f)"
    unfolding sorted_materials_def by (rule contract_sorted [OF c])
  have h: "hd ?A \<in> set ?A \<and>
           (\<forall>a\<in>set ?A. sustainability_score a \<le> sustainability_score (hd ?A))"
    using head_of_filtered_sorted [OF srtd, of ?P] A unfolding Adef by auto
  have "recommend_sustainable_material srt tbl f tol = Inr (Some (hd ?A))"
    using recommend_cases [OF c s, of tol] A by simp
  then show ?thesis using h set_affordable [OF c s, of tol] by auto
qed

lemma recommend_fallback:
  assumes c: "sort_values_contract srt" and s: "suitable_materials tbl f \<noteq> []"
    and a: "affordable_spec tbl f tol = {}"
  shows "\<exists>r. recommend_sustainable_material srt tbl f tol = Inr (Some r) \<and>
             r \<in> set (scored_materials tbl f) \<and>
             (\<forall>a\<in>set (scored_materials tbl f).
                 sustainability_score a \<le> sustainability_score r)"
proof -
  let ?S = "sorted_materials srt tbl f"
  have A: "affordable_sustainable_materials srt tbl f tol = []"
    using a set_affordable [OF c s, of tol] by simp
  have S: "?S \<noteq> []" using s sorted_Nil [OF c] by simp
  have srtd: "sorted_wrt (\<lambda>a b. sustainability_score a \<ge> sustainability_score b) ?S"
    unfolding sorted_materials_def by (rule contract_sorted [OF c])
  have "filter (\<lambda>_. True) ?S \<noteq> []" using S by simp
  from head_of_filtered_sorted [OF srtd this]
  have h: "hd ?S \<in> set ?S \<and>
           (\<forall>a\<in>set ?S. sustainability_score a \<le> sustainability_score (hd ?S))"
    by simp
  have "recommend_sustainable_material srt tbl f tol = Inr (Some (hd ?S))"
    using recommend_cases [OF c s, of tol] A by simp
  then show ?thesis using h set_sorted [OF c, of tbl f] by auto
qed

lemma min_cost_row:
  assumes s: "suitable_materials tbl f \<noteq> []"
  shows "\<exists>r\<in>set (scored_materials tbl f).
           cost_per_unit_area r = Min (cost_per_unit_area ` set (scored_materials tbl f))"
proof -
  let ?C = "cost_per_unit_area ` set (scored_materials tbl f)"
  have "finite ?C" by simp
  moreover have "?C \<noteq> {}" using s by simp
  ultimately have "Min ?C \<in> ?C" by (rule Min_in)
  then show ?thesis by auto
qed

lemma min_cost_le:
  "r \<in> set (scored_materials tbl f) \<Longrightarrow>
   Min (cost_per_unit_area ` set (scored_materials tbl f)) \<le> cost_per_unit_area r"
  by simp

text \<open>With a tolerance of at least 1 and a cost floor that is not negative, the cheapest
  suitable row is affordable.\<close>

lemma affordable_nonempty:
  assumes s: "suitable_materials tbl f \<noteq> []"
    and t: "1 \<le> tol"
    and n: "0 \<le> Min (cost_per_unit_area ` set (scored_materials tbl f))"
  shows "affordable_spec tbl f tol \<noteq> {}"
proof -
  let ?c = "Min (cost_per_unit_area ` set (scored_materials tbl f))"
  obtain r where r: "r \<in> set (scored_materials tbl f)" "cost_per_unit_area r = ?c"
    using min_cost_row [OF s] by blast
  have "?c * 1 \<le> ?c * tol" using t n by (rule mult_left_mono)
  then have "cost_per_unit_area r \<le> ?c * tol" using r(2) by simp
  then show ?thesis using r(1) by (auto simp: affordable_spec_def)
qed

section \<open>Properties of the box sizing\<close>

text \<open>
  Claim C3. For all positive dimensions \<open>(l, w, h)\<close> and every buffer \<open>b \<ge> 0\<close>,
  \<open>calculate_optimal_single_box\<close> returns exactly the dimensions \<open>(l + b, w + b, h + b)\<close>
  and the volume \<open>(l + b) * (w + b) * (h + b)\<close>. The equation holds for all arguments, the
  positive ones among them.
\<close>

theorem optimal_single_box_dimensions:
  "calculate_optimal_single_box l w h b = (l + b, w + b, h + b, (l + b) * (w + b) * (h + b))"
  by (simp add: calculate_optimal_single_box_def Let_def)

text \<open>
  Claim C4. When the identifiers select at least one product row,
  \<open>calculate_approximate_multi_box\<close> returns the maximum length of the selected rows plus 2,
  their maximum width plus 2, the sum of their heights plus 2, and the product of these three
  values as the volume; when they select no row it returns \<open>(0, 0, 0, 0)\<close>.
\<close>

theorem approximate_multi_box_dimensions:
  "(selected_products P ids \<noteq> [] \<longrightarrow>
      calculate_approximate_multi_box P ids =
        (Max (length_cm ` set (selected_products P ids)) + 2,
         Max (width_cm ` set (selected_products P ids)) + 2,
         (\<Sum>p\<leftarrow>selected_products P ids. height_cm p) + 2,
         (Max (length_cm ` set (selected_products P ids)) + 2) *
         (Max (width_cm ` set (selected_products P ids)) + 2) *
         ((\<Sum>p\<leftarrow>selected_products P ids. height_cm p) + 2))) \<and>
   (selected_products P ids = [] \<longrightarrow> calculate_approximate_multi_box P ids = (0, 0, 0, 0))"
  by (simp add: calculate_approximate_multi_box_def Let_def series_max_Max)

theorem approximate_multi_box_dimensions_witness:
  "selected_products demo_products [''P1'', ''P2''] \<noteq> [] \<and>
   calculate_approximate_multi_box demo_products [''P1'', ''P2''] = (22, 12, 15, 3960) \<and>
   selected_products demo_products [''P9''] = [] \<and>
   calculate_approximate_multi_box demo_products [''P9''] = (0, 0, 0, 0)"
proof -
  have sel: "selected_products demo_products [''P1'', ''P2''] = [mug, poster]"
    by (simp add: selected_products_def demo_defs)
  have none: "selected_products demo_products [''P9''] = []"
    by (simp add: selected_products_def demo_defs)
  show ?thesis
    using approximate_multi_box_dimensions [of demo_products "[''P1'', ''P2'']"]
      approximate_multi_box_dimensions [of demo_products "[''P9'']"]
    by (simp add: sel none) (simp add: mug_def poster_def)
qed

section \<open>Properties of the baseline estimator\<close>

text \<open>
  Claim C9, as amended. Let \<open>p\<close> be the first row of the product table with the identifier
  asked for and \<open>m\<close> the first row of the material table with the identifier that \<open>p\<close>
  records as its current packaging material. Then \<open>get_mock_current_packaging\<close> returns each
  raw dimension of \<open>p\<close> times 1.2, the product of the three as volume, and the material \<open>m\<close>.
  Let \<open>rows\<close> be the rows of the product table whose identifier is among those given and \<open>d\<close>
  the first row of the material table with the identifier \<open>cardboard_standard\<close>. Then
  \<open>get_mock_current_multi_packaging\<close> returns the maximum length, the maximum width and the
  sum of the heights of \<open>rows\<close>, each times 1.5, their product as volume, and the material
  \<open>d\<close>; when \<open>rows\<close> is empty it returns the zero box with \<open>d\<close>. When the material table has
  no row \<open>cardboard_standard\<close>, it raises \<^verbatim>\<open>IndexError\<close>, whatever the identifiers.
\<close>

theorem baseline_packaging_from_tables:
  assumes rows: "rows = filter (\<lambda>q. product_id q \<in> set ids) P"
  shows
  "(find (\<lambda>q. product_id q = pid) P = Some p \<and>
    find (\<lambda>x. material_id x = current_packaging_material p) M = Some m \<longrightarrow>
      get_mock_current_packaging P M pid =
        Inr \<lparr>length_pkg = length_cm p * 1.2, width = width_cm p * 1.2,
             height = height_cm p * 1.2,
             volume = (length_cm p * 1.2) * (width_cm p * 1.2) * (height_cm p * 1.2),
             material = m\<rparr> \<and>
      p \<in> set P \<and> product_id p = pid \<and>
      m \<in> set M \<and> material_id m = current_packaging_material p) \<and>
   (rows \<noteq> [] \<and> find (\<lambda>x. material_id x = ''cardboard_standard'') M = Some d \<longrightarrow>
      get_mock_current_multi_packaging P M ids =
        Inr \<lparr>length_pkg = Max (length_cm ` set rows) * 1.5,
             width = Max (width_cm ` set rows) * 1.5,
             height = (\<Sum>q\<leftarrow>rows. height_cm q) * 1.5,
             volume = (Max (length_cm ` set rows) * 1.5) * (Max (width_cm ` set rows) * 1.5) *
                      ((\<Sum>q\<leftarrow>rows. height_cm q) * 1.5),
             material = d\<rparr> \<and>
      d \<in> set M \<and> material_id d = ''cardboard_standard'') \<and>
   (rows = [] \<and> find (\<lambda>x. material_id x = ''cardboard_standard'') M = Some d \<longrightarrow>
      get_mock_current_multi_packaging P M ids =
        Inr \<lparr>length_pkg = 0, width = 0, height = 0, volume = 0, material = d\<rparr> \<and>
      d \<in> set M \<and> material_id d = ''cardboard_standard'') \<and>
   (''cardboard_standard'' \<notin> material_id ` set M \<longrightarrow>
      get_mock_current_multi_packaging P M ids = Inl IndexError)"
proof -
  have single: "get_mock_current_packaging P M pid =
        Inr \<lparr>length_pkg = length_cm p * 1.2, width = width_cm p * 1.2,
             height = height_cm p * 1.2,
             volume = (length_cm p * 1.2) * (width_cm p * 1.2) * (height_cm p * 1.2),
             material = m\<rparr>"
    if "find (\<lambda>q. product_id q = pid) P = Some p"
      and "find (\<lambda>x. material_id x = current_packaging_material p) M = Some m"
    using that
    by (simp add: get_mock_current_packaging_def get_product_data_find lookup_material_find Let_def)
  have ids_p: "p \<in> set P \<and> product_id p = pid"
    if "find (\<lambda>q. product_id q = pid) P = Some p"
    using that by (auto simp: find_Some_iff)
  have ids_m: "x \<in> set M \<and> material_id x = mid"
    if "find (\<lambda>x. material_id x = mid) M = Some x" for x mid
    using that by (auto simp: find_Some_iff)
  have sel: "selected_products P ids = rows" by (simp add: rows selected_products_def)
  have multi: "get_mock_current_multi_packaging P M ids =
        Inr \<lparr>length_pkg = Max (length_cm ` set rows) * 1.5,
             width = Max (width_cm ` set rows) * 1.5,
             height = (\<Sum>q\<leftarrow>rows. height_cm q) * 1.5,
             volume = (Max (length_cm ` set rows) * 1.5) * (Max (width_cm ` set rows) * 1.5) *
                      ((\<Sum>q\<leftarrow>rows. height_cm q) * 1.5),
             material = d\<rparr>"
    if "rows \<noteq> []" and "find (\<lambda>x. material_id x = ''cardboard_standard'') M = Some d"
    using that
    by (simp add: get_mock_current_multi_packaging_def sel lookup_material_find Let_def
          series_max_Max)
  have empty: "get_mock_current_multi_packaging P M ids =
        Inr \<lparr>length_pkg = 0, width = 0, height = 0, volume = 0, material = d\<rparr>"
    if "rows = []" and "find (\<lambda>x. material_id x = ''cardboard_standard'') M = Some d"
    using that
    by (simp add: get_mock_current_multi_packaging_def sel lookup_material_find Let_def)
  have fails: "get_mock_current_multi_packaging P M ids = Inl IndexError"
    if "''cardboard_standard'' \<notin> material_id ` set M"
  proof -
    have "lookup_material M ''cardboard_standard'' = Inl IndexError"
      using that by (simp add: lookup_material_fails_iff)
    then show ?thesis
      by (simp add: get_mock_current_multi_packaging_def Let_def)
  qed
  show ?thesis using single ids_p ids_m multi empty fails by blast
qed

theorem baseline_packaging_from_tables_witness:
  "get_mock_current_packaging demo_products demo_materials ''P1'' =
     Inr \<lparr>length_pkg = 12, width = 12, height = 12, volume = 1728,
          material = cardboard_standard\<rparr> \<and>
   get_mock_current_multi_packaging demo_products demo_materials [''P1'', ''P2''] =
     Inr \<lparr>length_pkg = 30, width = 15, height = 39 / 2, volume = 8775,
          material = cardboard_standard\<rparr> \<and>
   get_mock_current_multi_packaging demo_products demo_materials [] =
     Inr \<lparr>length_pkg = 0, width = 0, height = 0, volume = 0, material = cardboard_standard\<rparr> \<and>
   get_mock_current_multi_packaging demo_products materials_without_default [''P1'', ''P2''] =
     Inl IndexError"
proof -
  have p: "find (\<lambda>q. product_id q = ''P1'') demo_products = Some mug"
    by (simp add: demo_defs)
  have m: "find (\<lambda>x. material_id x = current_packaging_material mug) demo_materials
             = Some cardboard_standard"
    by (simp add: demo_defs)
  have d: "find (\<lambda>x. material_id x = ''cardboard_standard'') demo_materials
             = Some cardboard_standard"
    by (simp add: demo_defs)
  have rows: "[mug, poster] = filter (\<lambda>q. product_id q \<in> set [''P1'', ''P2'']) demo_products"
    by (simp add: demo_defs)
  have none: "[] = filter (\<lambda>q. product_id q \<in> set []) demo_products"
    by simp
  have missing: "''cardboard_standard'' \<notin> material_id ` set materials_without_default"
    by (simp add: materials_without_default_def demo_defs)
  note two = baseline_packaging_from_tables [OF rows, of "''P1''" mug demo_materials
               cardboard_standard cardboard_standard]
  note zero = baseline_packaging_from_tables [OF none, of "''P1''" mug demo_materials
               cardboard_standard cardboard_standard]
  note fail = baseline_packaging_from_tables [OF rows, of "''P1''" mug
               materials_without_default cardboard_standard cardboard_standard]
  have "get_mock_current_packaging demo_products demo_materials ''P1'' =
     Inr \<lparr>length_pkg = 12, width = 12, height = 12, volume = 1728,
          material = cardboard_standard\<rparr>"
    using two p m by (simp add: mug_def)
  moreover have "get_mock_current_multi_packaging demo_products demo_materials [''P1'', ''P2''] =
     Inr \<lparr>length_pkg = 30, width = 15, height = 39 / 2, volume = 8775,
          material = cardboard_standard\<rparr>"
    using two d by (simp add: mug_def poster_def)
  moreover have "get_mock_current_multi_packaging demo_products demo_materials [] =
     Inr \<lparr>length_pkg = 0, width = 0, height = 0, volume = 0, material = cardboard_standard\<rparr>"
    using zero d by simp
  moreover have "get_mock_current_multi_packaging demo_products materials_without_default
       [''P1'', ''P2''] = Inl IndexError"
    using fail missing by simp
  ultimately show ?thesis by simp
qed

text \<open>
  As stated, with an empty identifier list always giving a zero box and a default material
  and never a lookup failure, the property fails: line 122 looks the default material up
  with \<^verbatim>\<open>.iloc[0]\<close>, which raises \<^verbatim>\<open>IndexError\<close> on a material table without that row.
\<close>

theorem baseline_empty_selection_counterexample:
  "selected_products demo_products [] = [] \<and>
   get_mock_current_multi_packaging demo_products materials_without_default [] = Inl IndexError"
  by (simp add: get_mock_current_multi_packaging_def selected_products_def lookup_material_def
        materials_without_default_def cardboard_recycled_def bubble_wrap_def Let_def)

section \<open>Properties of the material recommender\<close>

text \<open>
  The properties below hold for every function \<open>sort_values\<close> that meets
  \<open>sort_values_contract\<close>, whatever order it gives to rows of equal score.
\<close>

text \<open>
  Claim C1. \<open>recommend_sustainable_material\<close> returns \<^verbatim>\<open>None\<close> if and only if no row of the
  material table has a strength rating of at least the given fragility; in every other case
  it returns a row (and raises no error).
\<close>

theorem recommend_None_iff:
  assumes "sort_values_contract sort_values"
  shows "(recommend_sustainable_material sort_values tbl f tol = Inr None
          \<longleftrightarrow> \<not> (\<exists>m\<in>set tbl. strength_rating m \<ge> f)) \<and>
         ((\<exists>m\<in>set tbl. strength_rating m \<ge> f)
          \<longrightarrow> (\<exists>r. recommend_sustainable_material sort_values tbl f tol = Inr (Some r)))"
proof (cases "suitable_materials tbl f = []")
  case True
  then show ?thesis by (simp add: recommend_sustainable_material_def suitable_Nil)
next
  case False
  then show ?thesis using recommend_cases [OF assms False, of tol] by (simp add: suitable_Nil)
qed

theorem recommend_None_iff_witness:
  "sort_values_contract insertion_sort_values \<and>
   recommend_sustainable_material insertion_sort_values demo_materials 5 1.2 = Inr None \<and>
   recommend_sustainable_material insertion_sort_values demo_materials 3 1.2 \<noteq> Inr None"
  using recommend_None_iff [OF insertion_sort_values_contract, of demo_materials 5 "1.2"]
    recommend_None_iff [OF insertion_sort_values_contract, of demo_materials 3 "1.2"]
    insertion_sort_values_contract
  by (simp add: demo_materials_def cardboard_standard_def cardboard_recycled_def bubble_wrap_def)

text \<open>
  Claim C2. For every fragility and every cost tolerance factor, a row returned by
  \<open>recommend_sustainable_material\<close> has a strength rating of at least the fragility (and,
  without its score, is a row of the material table).
\<close>

theorem recommend_strength_sufficient:
  assumes "sort_values_contract sort_values"
    and "recommend_sustainable_material sort_values tbl f tol = Inr (Some r)"
  shows "strength_rating r \<ge> f \<and> material.truncate r \<in> set tbl"
  using scored_row [OF recommend_member [OF assms]] by simp

theorem recommend_strength_sufficient_witness:
  "sort_values_contract insertion_sort_values \<and>
   recommend_sustainable_material insertion_sort_values demo_materials 3 1.2 =
     Inr (Some (assign_score cardboard_standard 0.85)) \<and>
   strength_rating (assign_score cardboard_standard 0.85) \<ge> 3 \<and>
   material.truncate (assign_score cardboard_standard 0.85) \<in> set demo_materials"
proof -
  have r: "recommend_sustainable_material insertion_sort_values demo_materials 3 1.2 =
             Inr (Some (assign_score cardboard_standard 0.85))"
    by (simp add: recommender_defs demo_defs)
  show ?thesis
    using recommend_strength_sufficient [OF insertion_sort_values_contract r]
      insertion_sort_values_contract r
    by simp
qed

text \<open>
  Claim C5, as amended. For a fragility with at least one suitable material and two cost
  tolerance factors with \<open>1 \<le> t1 \<le> t2\<close>, the score of the row returned with \<open>t2\<close> is at
  least the score of the row returned with \<open>t1\<close>.
\<close>

theorem recommend_score_mono_tolerance:
  assumes c: "sort_values_contract sort_values" and fin: "finite_scores tbl"
    and s: "suitable_materials tbl f \<noteq> []" and t: "1 \<le> t1" "t1 \<le> t2"
  shows "\<exists>r1 r2. recommend_sustainable_material sort_values tbl f t1 = Inr (Some r1) \<and>
                 recommend_sustainable_material sort_values tbl f t2 = Inr (Some r2) \<and>
                 sustainability_score r1 \<le> sustainability_score r2"
proof -
  let ?S = "set (scored_materials tbl f)"
  let ?c = "Min (cost_per_unit_area ` ?S)"
  obtain r1 where r1: "recommend_sustainable_material sort_values tbl f t1 = Inr (Some r1)"
    using recommend_cases [OF c s] by blast
  have r1S: "r1 \<in> ?S" by (rule recommend_member [OF c r1])
  show ?thesis
  proof (cases "affordable_spec tbl f t2 = {}")
    case True
    from recommend_fallback [OF c s True] r1 r1S show ?thesis by blast
  next
    case False
    from recommend_affordable [OF c s False] obtain r2 where
      r2: "recommend_sustainable_material sort_values tbl f t2 = Inr (Some r2)"
      and top: "\<forall>a\<in>affordable_spec tbl f t2. sustainability_score a \<le> sustainability_score r2"
      by blast
    show ?thesis
    proof (cases "0 \<le> ?c")
      case True
      have ne1: "affordable_spec tbl f t1 \<noteq> {}" by (rule affordable_nonempty [OF s t(1) True])
      from recommend_affordable [OF c s ne1] r1 have "r1 \<in> affordable_spec tbl f t1" by auto
      moreover have "?c * t1 \<le> ?c * t2" using t(2) True by (rule mult_left_mono)
      ultimately have "r1 \<in> affordable_spec tbl f t2" by (auto simp: affordable_spec_def)
      then show ?thesis using r1 r2 top by blast
    next
      case neg: False
      obtain a where a: "a \<in> ?S" "cost_per_unit_area a \<le> ?c * t2"
        using False by (auto simp: affordable_spec_def)
      have le: "?c \<le> ?c * t2" using min_cost_le [OF a(1)] a(2) by linarith
      have "\<not> 1 < t2"
      proof
        assume "1 < t2"
        then have "?c * t2 < ?c * 1" using neg by (intro mult_strict_left_mono_neg) auto
        then show False using le by simp
      qed
      then have "t1 = t2" using t by simp
      then show ?thesis using r2 by auto
    qed
  qed
qed

theorem recommend_score_mono_tolerance_witness:
  "sort_values_contract insertion_sort_values \<and> finite_scores demo_materials \<and>
   suitable_materials demo_materials 3 \<noteq> [] \<and> (1::real) \<le> 1.2 \<and> (1.2::real) \<le> 1.3 \<and>
   (\<exists>r1 r2. recommend_sustainable_material insertion_sort_values demo_materials 3 1.2 = Inr (Some r1) \<and>
            recommend_sustainable_material insertion_sort_values demo_materials 3 1.3 = Inr (Some r2) \<and>
            sustainability_score r1 \<le> sustainability_score r2)"
proof -
  have fin: "finite_scores demo_materials" by (simp add: finite_scores_def demo_defs)
  have s: "suitable_materials demo_materials 3 \<noteq> []"
    by (simp add: suitable_materials_def demo_defs)
  have t: "(1::real) \<le> 1.2" "(1.2::real) \<le> 1.3" by simp_all
  show ?thesis
    using recommend_score_mono_tolerance [OF insertion_sort_values_contract fin s t]
      insertion_sort_values_contract fin s t
    by blast
qed

text \<open>
  Without the lower bound 1 the property fails. In the example table the suitable rows for
  fragility 3 cost 1 and 1.25. With tolerance 0.5 the ceiling is 0.5, no row is affordable,
  and line 82 returns the best suitable row, of score 1.35; with the larger tolerance 1 the
  ceiling is 1 and the cheaper row is returned, of score 0.85. The scores of the suitable
  rows differ, so every sort that meets the contract yields this frame.
\<close>

theorem recommend_score_mono_counterexample:
  "sort_values_contract insertion_sort_values \<and>
   suitable_materials demo_materials 3 \<noteq> [] \<and> (1 / 2 :: real) \<le> 1 \<and>
   recommend_sustainable_material insertion_sort_values demo_materials 3 (1 / 2) =
     Inr (Some (assign_score cardboard_recycled 1.35)) \<and>
   recommend_sustainable_material insertion_sort_values demo_materials 3 1 =
     Inr (Some (assign_score cardboard_standard 0.85)) \<and>
   sustainability_score (assign_score cardboard_standard 0.85)
     < sustainability_score (assign_score cardboard_recycled 1.35)"
proof -
  have "recommend_sustainable_material insertion_sort_values demo_materials 3 (1 / 2) =
     Inr (Some (assign_score cardboard_recycled 1.35))"
    by (simp add: recommender_defs demo_defs)
  moreover have "recommend_sustainable_material insertion_sort_values demo_materials 3 1 =
     Inr (Some (assign_score cardboard_standard 0.85))"
    by (simp add: recommender_defs demo_defs)
  moreover have "suitable_materials demo_materials 3 \<noteq> []"
    by (simp add: suitable_materials_def demo_defs)
  ultimately show ?thesis using insertion_sort_values_contract by simp
qed

text \<open>
  Claim C7. For every suitable material, the score computed by the recommender is
  \<open>recycled_content_percent * 0.005 + recyclability_score * 0.1 + biodegradability_score * 0.05
  + (1 - carbon_footprint / M) * 0.2\<close>, where \<open>M\<close> is the maximum carbon footprint over the
  entire material table. It is stated for the rows of the sorted frame and for the row
  returned.
\<close>

theorem score_uses_table_maximum:
  assumes c: "sort_values_contract sort_values" and fin: "finite_scores tbl"
  shows "(\<forall>r\<in>set (sorted_materials sort_values tbl f).
            sustainability_score r = composite_score_spec tbl (material.truncate r)) \<and>
         (\<forall>tol r. recommend_sustainable_material sort_values tbl f tol = Inr (Some r) \<longrightarrow>
            sustainability_score r = composite_score_spec tbl (material.truncate r))"
proof -
  have *: "sustainability_score r = composite_score_spec tbl (material.truncate r)"
    if "r \<in> set (scored_materials tbl f)" for r
  proof -
    have "material.truncate r \<in> set tbl" using scored_row [OF that] by simp
    then have "tbl \<noteq> []" by auto
    then show ?thesis using scored_row [OF that]
      by (simp add: series_max_Max score_row_def composite_score_spec_def)
  qed
  show ?thesis using * set_sorted [OF c] recommend_member [OF c] by blast
qed

text \<open>In the example table the maximum over the table is 1, the maximum over the rows
  suitable for fragility 3 is 0.5, and the scores are those for the denominator 1.\<close>

theorem score_uses_table_maximum_witness:
  "sort_values_contract insertion_sort_values \<and> finite_scores demo_materials \<and>
   sorted_materials insertion_sort_values demo_materials 3 =
     [assign_score cardboard_recycled 1.35, assign_score cardboard_standard 0.85] \<and>
   composite_score_spec demo_materials cardboard_recycled = 1.35 \<and>
   composite_score_spec demo_materials cardboard_standard = 0.85 \<and>
   recommend_sustainable_material insertion_sort_values demo_materials 3 1.2 =
     Inr (Some (assign_score cardboard_standard 0.85)) \<and>
   Max (carbon_footprint_per_unit_sqm ` set demo_materials) = 1 \<and>
   Max (carbon_footprint_per_unit_sqm ` set (suitable_materials demo_materials 3)) = 0.5"
proof -
  have fin: "finite_scores demo_materials" by (simp add: finite_scores_def demo_defs)
  have srt: "sorted_materials insertion_sort_values demo_materials 3 =
     [assign_score cardboard_recycled 1.35, assign_score cardboard_standard 0.85]"
    by (simp add: recommender_defs demo_defs)
  have r: "recommend_sustainable_material insertion_sort_values demo_materials 3 1.2 =
             Inr (Some (assign_score cardboard_standard 0.85))"
    by (simp add: recommender_defs demo_defs)
  have m1: "Max (carbon_footprint_per_unit_sqm ` set demo_materials) = 1"
    by (simp add: demo_defs)
  have m2: "Max (carbon_footprint_per_unit_sqm ` set (suitable_materials demo_materials 3)) = 0.5"
    by (simp add: suitable_materials_def demo_defs)
  show ?thesis
    using score_uses_table_maximum [OF insertion_sort_values_contract fin, of 3]
      insertion_sort_values_contract fin r m1 m2
    by (simp add: srt)
qed

text \<open>
  Claim C8. Given at least one suitable material, the affordable frame holds exactly the
  suitable materials whose cost is at most the minimum cost among the suitable materials
  times the tolerance; if there is such a material the recommender returns one of them of
  highest score, and if there is none it returns a suitable material of highest score.
\<close>

theorem recommend_selection:
  assumes "sort_values_contract sort_values" and "finite_scores tbl"
    and "suitable_materials tbl f \<noteq> []"
  shows "set (affordable_sustainable_materials sort_values tbl f tol) = affordable_spec tbl f tol \<and>
         (affordable_spec tbl f tol \<noteq> {} \<longrightarrow>
            (\<exists>r. recommend_sustainable_material sort_values tbl f tol = Inr (Some r) \<and>
                 r \<in> affordable_spec tbl f tol \<and>
                 (\<forall>a\<in>affordable_spec tbl f tol.
                     sustainability_score a \<le> sustainability_score r))) \<and>
         (affordable_spec tbl f tol = {} \<longrightarrow>
            (\<exists>r. recommend_sustainable_material sort_values tbl f tol = Inr (Some r) \<and>
                 r \<in> set (scored_materials tbl f) \<and>
                 (\<forall>a\<in>set (scored_materials tbl f).
                     sustainability_score a \<le> sustainability_score r)))"
  using set_affordable [OF assms(1,3)] recommend_affordable [OF assms(1,3)]
    recommend_fallback [OF assms(1,3)] by blast

theorem recommend_selection_witness:
  "sort_values_contract insertion_sort_values \<and> finite_scores demo_materials \<and>
   suitable_materials demo_materials 3 \<noteq> [] \<and>
   affordable_spec demo_materials 3 1.2 = {assign_score cardboard_standard 0.85} \<and>
   recommend_sustainable_material insertion_sort_values demo_materials 3 1.2 =
     Inr (Some (assign_score cardboard_standard 0.85)) \<and>
   affordable_spec demo_materials 3 (1 / 2) = {} \<and>
   (\<exists>r. recommend_sustainable_material insertion_sort_values demo_materials 3 (1 / 2) = Inr (Some r) \<and>
        sustainability_score r = 1.35)"
proof -
  have fin: "finite_scores demo_materials" by (simp add: finite_scores_def demo_defs)
  have s: "suitable_materials demo_materials 3 \<noteq> []"
    by (simp add: suitable_materials_def demo_defs)
  have sc: "scored_materials demo_materials 3 =
     [assign_score cardboard_standard 0.85, assign_score cardboard_recycled 1.35]"
    by (simp add: recommender_defs demo_defs)
  have a1: "affordable_sustainable_materials insertion_sort_values demo_materials 3 1.2 =
     [assign_score cardboard_standard 0.85]"
    by (simp add: recommender_defs demo_defs)
  have a2: "affordable_sustainable_materials insertion_sort_values demo_materials 3 (1 / 2) = []"
    by (simp add: recommender_defs demo_defs)
  note th1 = recommend_selection [OF insertion_sort_values_contract fin s, of "1.2"]
  note th2 = recommend_selection [OF insertion_sort_values_contract fin s, of "1 / 2"]
  have e1: "affordable_spec demo_materials 3 1.2 = {assign_score cardboard_standard 0.85}"
    using th1 [THEN conjunct1] a1 by simp
  have e2: "affordable_spec demo_materials 3 (1 / 2) = {}"
    using th2 [THEN conjunct1] a2 by simp
  have r1: "recommend_sustainable_material insertion_sort_values demo_materials 3 1.2 =
     Inr (Some (assign_score cardboard_standard 0.85))"
    using th1 e1 by auto
  have r2: "\<exists>r. recommend_sustainable_material insertion_sort_values demo_materials 3 (1 / 2) = Inr (Some r) \<and>
        sustainability_score r = 1.35"
  proof -
    from th2 e2 obtain r where r: "recommend_sustainable_material insertion_sort_values demo_materials 3 (1 / 2) = Inr (Some r)"
      "r \<in> set (scored_materials demo_materials 3)"
      "\<forall>a\<in>set (scored_materials demo_materials 3). sustainability_score a \<le> sustainability_score r"
      by blast
    from r(2,3) have "sustainability_score r = 1.35" by (auto simp: sc)
    then show ?thesis using r(1) by blast
  qed
  show ?thesis using insertion_sort_values_contract fin s e1 e2 r1 r2 by blast
qed



end
